theory Spec2Isabelle
  imports Main "HOL-Library.Word"
begin

unbundle bit_operations_syntax

section \<open>Strings, panics and the standard library\<close>

text \<open>
  A Go string is a sequence of bytes, and so is a \<^typ>\<open>string\<close> here (a list of 8-bit
  \<^typ>\<open>char\<close>): \<^const>\<open>length\<close> is Go's \<open>len\<close>, \<^const>\<open>take\<close> is the slice
  \<open>s[:n]\<close>. A Go \<open>error\<close> is represented by its text, the result of \<open>err.Error()\<close>;
  a call returning \<open>(x, err)\<close> is a sum with the error on the left.

  A run-time panic is a value of its own: a provider that can panic returns
  \<open>panic + Action\<close>.
\<close>

datatype panic = IndexOutOfRange nat nat

type_synonym error = string

definition at_index :: "'a list \<Rightarrow> nat \<Rightarrow> panic + 'a" where
  \<comment> \<open>the read \<open>xs[i]\<close>\<close>
  "at_index xs i = (if i < length xs then Inr (xs ! i) else Inl (IndexOutOfRange i (length xs)))"

definition store_index :: "'a list \<Rightarrow> nat \<Rightarrow> 'a \<Rightarrow> panic + 'a list" where
  \<comment> \<open>the assignment \<open>xs[i] = v\<close>\<close>
  "store_index xs i v =
     (if i < length xs then Inr (xs[i := v]) else Inl (IndexOutOfRange i (length xs)))"

subsection \<open>\<open>strings.Split\<close> and \<open>strings.SplitN\<close> with a one-byte separator\<close>

fun Split :: "string \<Rightarrow> char \<Rightarrow> string list" where
  "Split [] sep = [[]]"
| "Split (c # cs) sep =
     (if c = sep then [] # Split cs sep
      else (case Split cs sep of [] \<Rightarrow> [[c]] | p # ps \<Rightarrow> (c # p) # ps))"

text \<open>
  \<open>SplitN(s, sep, n)\<close>: no slice for \<open>n = 0\<close>, otherwise at most \<open>n\<close> substrings, the last
  one being the unsplit remainder.
\<close>

fun SplitN :: "string \<Rightarrow> char \<Rightarrow> nat \<Rightarrow> string list" where
  "SplitN s sep 0 = []"
| "SplitN s sep (Suc 0) = [s]"
| "SplitN s sep (Suc (Suc n)) =
     (if sep \<in> set s
      then takeWhile (\<lambda>c. c \<noteq> sep) s # SplitN (tl (dropWhile (\<lambda>c. c \<noteq> sep) s)) sep (Suc n)
      else [s])"

subsection \<open>\<open>strings.TrimSpace\<close>\<close>

text \<open>
  The white space of \<open>unicode.IsSpace\<close>, each code point in its UTF-8 encoding: tab, line
  feed, vertical tab, form feed, carriage return, space, U+0085, U+00A0, U+1680,
  U+2000 to U+200A, U+2028, U+2029, U+202F, U+205F and U+3000. Go decodes no other byte
  sequence to one of these code points (overlong encodings decode to U+FFFD).
\<close>

definition space_runes :: "string list" where
  "space_runes =
     [[CHR 0x09], [CHR 0x0A], [CHR 0x0B], [CHR 0x0C], [CHR 0x0D], [CHR 0x20],
      [CHR 0xC2, CHR 0x85], [CHR 0xC2, CHR 0xA0],
      [CHR 0xE1, CHR 0x9A, CHR 0x80],
      [CHR 0xE2, CHR 0x80, CHR 0x80], [CHR 0xE2, CHR 0x80, CHR 0x81],
      [CHR 0xE2, CHR 0x80, CHR 0x82], [CHR 0xE2, CHR 0x80, CHR 0x83],
      [CHR 0xE2, CHR 0x80, CHR 0x84], [CHR 0xE2, CHR 0x80, CHR 0x85],
      [CHR 0xE2, CHR 0x80, CHR 0x86], [CHR 0xE2, CHR 0x80, CHR 0x87],
      [CHR 0xE2, CHR 0x80, CHR 0x88], [CHR 0xE2, CHR 0x80, CHR 0x89],
      [CHR 0xE2, CHR 0x80, CHR 0x8A],
      [CHR 0xE2, CHR 0x80, CHR 0xA8], [CHR 0xE2, CHR 0x80, CHR 0xA9],
      [CHR 0xE2, CHR 0x80, CHR 0xAF], [CHR 0xE2, CHR 0x81, CHR 0x9F],
      [CHR 0xE3, CHR 0x80, CHR 0x80]]"

definition starts_with :: "string \<Rightarrow> string \<Rightarrow> bool" where
  "starts_with s w \<longleftrightarrow> take (length w) s = w"

text \<open>
  Dropping the runes of \<open>ws\<close> from the front of \<open>s\<close>, one rune a step; the fuel is the
  number of bytes left, and each rune has at least one byte.
\<close>

fun trim_front :: "string list \<Rightarrow> nat \<Rightarrow> string \<Rightarrow> string" where
  "trim_front ws 0 s = s"
| "trim_front ws (Suc k) s =
     (case find (starts_with s) ws of
        None \<Rightarrow> s
      | Some w \<Rightarrow> trim_front ws k (drop (length w) s))"

definition TrimLeftSpace :: "string \<Rightarrow> string" where
  "TrimLeftSpace s = trim_front space_runes (length s) s"

definition TrimRightSpace :: "string \<Rightarrow> string" where
  \<comment> \<open>Go decodes the last rune backwards; that is a match of the reversed encoding.\<close>
  "TrimRightSpace s = rev (trim_front (map rev space_runes) (length s) (rev s))"

definition TrimSpace :: "string \<Rightarrow> string" where
  "TrimSpace s = TrimRightSpace (TrimLeftSpace s)"

subsection \<open>\<open>strconv.Itoa\<close>\<close>

fun digits10 :: "nat \<Rightarrow> string" where
  "digits10 n =
     (if n < 10 then [char_of (48 + n)]
      else digits10 (n div 10) @ [char_of (48 + n mod 10)])"

definition Itoa :: "int \<Rightarrow> string" where
  "Itoa i = (if i < 0 then CHR ''-'' # digits10 (nat (- i)) else digits10 (nat i))"

subsection \<open>\<open>os.FileMode\<close>\<close>

type_synonym FileMode = "32 word"

definition ModeDir :: FileMode where "ModeDir = push_bit 31 1"
definition ModeSymlink :: FileMode where "ModeSymlink = push_bit 27 1"
definition ModeDevice :: FileMode where "ModeDevice = push_bit 26 1"
definition ModeNamedPipe :: FileMode where "ModeNamedPipe = push_bit 25 1"
definition ModeSocket :: FileMode where "ModeSocket = push_bit 24 1"
definition ModeCharDevice :: FileMode where "ModeCharDevice = push_bit 21 1"
definition ModeIrregular :: FileMode where "ModeIrregular = push_bit 19 1"

definition ModeType :: FileMode where
  "ModeType =
     ModeDir OR ModeSymlink OR ModeNamedPipe OR ModeSocket OR ModeDevice OR ModeCharDevice
       OR ModeIrregular"

definition IsRegular :: "FileMode \<Rightarrow> bool" where
  "IsRegular m \<longleftrightarrow> m AND ModeType = 0"

section \<open>Candidates and actions\<close>

text \<open>
  The completion library (package \<open>carapace\<close>) is a dependency of the repository and not
  part of its sources; what the providers use of it is modelled from the spec, sections
  3, 4.1 and 4.6. An \<open>ActionCallback\<close> is run with the argument list when the action is
  invoked: a provider is a function of the operating system's state and the argument
  list, and \<open>Invoke\<close> and \<open>ToA\<close> change nothing of its result.
\<close>

text \<open>
  Modelled from the spec: a candidate is an ordered pair of a value and a description,
  and the description may be empty.
\<close>

type_synonym Candidate = "string \<times> string"

text \<open>
  Modelled from the spec: an action yields exactly one of a candidate set, an ordered
  sequence of candidates that may be empty, and a single advisory message.
\<close>

datatype Action = CandidateSet "Candidate list" | Message string

text \<open>
  Modelled from the spec: \<open>ActionValuesDescribed\<close> takes values and descriptions in
  turn. The providers only ever pass it an even number of strings; a last string without
  a partner would make no candidate here.
\<close>

fun pairs :: "string list \<Rightarrow> Candidate list" where
  "pairs (v # d # rest) = (v, d) # pairs rest"
| "pairs _ = []"

definition ActionValuesDescribed :: "string list \<Rightarrow> Action" where
  "ActionValuesDescribed vals = CandidateSet (pairs vals)"

text \<open>
  Modelled from the spec: \<open>ActionValues\<close> makes each of its arguments a candidate with a
  value and no description.
\<close>

definition ActionValues :: "string list \<Rightarrow> Action" where
  "ActionValues vals = CandidateSet (map (\<lambda>v. (v, [])) vals)"

text \<open>Modelled from the spec: \<open>ActionMessage\<close> is the single advisory message.\<close>

definition ActionMessage :: "string \<Rightarrow> Action" where
  "ActionMessage msg = Message msg"

text \<open>
  Modelled from the spec: \<open>Suffix\<close> appends the delimiter to the value of every
  candidate.
\<close>

fun Suffix :: "string \<Rightarrow> Action \<Rightarrow> Action" where
  "Suffix suffix (CandidateSet cs) = CandidateSet (map (\<lambda>(v, d). (v @ suffix, d)) cs)"
| "Suffix suffix (Message m) = Message m"

text \<open>
  Modelled from the spec: \<open>ActionMultiParts\<close> splits the token being completed on the
  delimiter and hands the callback the segments already completed, one for each
  delimiter typed; the candidates of the callback are the result.
\<close>

definition ActionMultiParts ::
  "char \<Rightarrow> (string list \<Rightarrow> string list \<Rightarrow> Action) \<Rightarrow> string \<Rightarrow> string list \<Rightarrow> Action" where
  "ActionMultiParts divider callback token args = callback args (butlast (Split token divider))"

section \<open>The operating system a provider reads\<close>

record FileInfo =
  Name :: string
  Mode :: FileMode

record Process =
  Executable :: string
  Pid :: "64 word"

text \<open>
  \<open>Environ\<close> is the result of \<open>os.Environ()\<close>, \<open>ReadFile\<close> and \<open>ReadDir\<close> those of
  \<open>ioutil.ReadFile\<close> and \<open>ioutil.ReadDir\<close> at a path, \<open>Processes\<close> that of
  \<open>ps.Processes()\<close>, and \<open>Output\<close> that of \<open>exec.Command(name, arg...).Output()\<close>, whose
  error is not nil when the command is not found or exits nonzero.
\<close>

record OS =
  Environ :: "string list"
  ReadFile :: "string \<Rightarrow> error + string"
  ReadDir :: "string \<Rightarrow> error + FileInfo list"
  Processes :: "error + Process list"
  Output :: "string \<Rightarrow> string list \<Rightarrow> error + string"

text \<open>
  \<open>os.Getenv(key)\<close>: the value of the first entry \<open>key=value\<close> of the environment, the
  empty string when there is none.
\<close>

definition Getenv :: "OS \<Rightarrow> string \<Rightarrow> string" where
  "Getenv os key =
     (case filter (\<lambda>e. CHR ''='' \<in> set e \<and> takeWhile (\<lambda>c. c \<noteq> CHR ''='') e = key) (Environ os) of
        [] \<Rightarrow> []
      | e # _ \<Rightarrow> tl (dropWhile (\<lambda>c. c \<noteq> CHR ''='') e))"

section \<open>The providers of package \<open>os\<close>\<close>

subsection \<open>ActionEnvironmentVariables\<close>

fun env_loop :: "nat \<Rightarrow> string list \<Rightarrow> string list \<Rightarrow> panic + string list" where
  "env_loop index [] vars = Inr vars"
| "env_loop index (e # es) vars =
     (let pair = SplitN e (CHR ''='') 2 in
      case at_index pair 0 of Inl p \<Rightarrow> Inl p | Inr name \<Rightarrow>
      case store_index vars (index * 2) name of Inl p \<Rightarrow> Inl p | Inr vars1 \<Rightarrow>
      case at_index pair 1 of Inl p \<Rightarrow> Inl p | Inr v \<Rightarrow>
      case store_index vars1 (index * 2 + 1)
             (if length v > 40 then take 37 v @ ''...'' else v) of
        Inl p \<Rightarrow> Inl p
      | Inr vars2 \<Rightarrow> env_loop (Suc index) es vars2)"

definition ActionEnvironmentVariables :: "OS \<Rightarrow> string list \<Rightarrow> panic + Action" where
  "ActionEnvironmentVariables os args =
     (let env = Environ os;
          vars = replicate (length env * 2) []
      in case env_loop 0 (Environ os) vars of
           Inl p \<Rightarrow> Inl p
         | Inr vars' \<Rightarrow> Inr (ActionValuesDescribed vars'))"

subsection \<open>ActionGroups and ActionUsers\<close>

text \<open>
  Both loops read \<open>splitted[0]\<close> and \<open>splitted[2]\<close> only under \<open>len(splitted) > 2\<close>, so
  neither read can panic.
\<close>

fun groups_loop :: "string list \<Rightarrow> string list \<Rightarrow> string list" where
  "groups_loop [] groups = groups"
| "groups_loop (entry # entries) groups =
     (let splitted = Split entry (CHR '':'') in
      if length splitted > 2 then
        (let group = splitted ! 0; id = splitted ! 2 in
         if length (TrimSpace group) > 0 then groups_loop entries (groups @ [group, id])
         else groups_loop entries groups)
      else groups_loop entries groups)"

definition ActionGroups :: "OS \<Rightarrow> string list \<Rightarrow> Action" where
  "ActionGroups os args =
     ActionValuesDescribed
       (case ReadFile os ''/etc/group'' of
          Inr content \<Rightarrow> groups_loop (Split content (CHR ''\<newline>'')) []
        | Inl err \<Rightarrow> [])"

fun users_loop :: "string list \<Rightarrow> string list \<Rightarrow> string list" where
  "users_loop [] users = users"
| "users_loop (entry # entries) users =
     (let splitted = Split entry (CHR '':'') in
      if length splitted > 2 then
        (let user = splitted ! 0; id = splitted ! 2 in
         if length (TrimSpace user) > 0 then users_loop entries (users @ [user, id])
         else users_loop entries users)
      else users_loop entries users)"

definition ActionUsers :: "OS \<Rightarrow> string list \<Rightarrow> Action" where
  "ActionUsers os args =
     ActionValuesDescribed
       (case ReadFile os ''/etc/passwd'' of
          Inr content \<Rightarrow> users_loop (Split content (CHR ''\<newline>'')) []
        | Inl err \<Rightarrow> [])"

subsection \<open>ActionKillSignals and ActionProcessStates\<close>

definition ActionKillSignals :: Action where
  "ActionKillSignals =
     ActionValuesDescribed
       [''ABRT'', ''Abnormal termination'',
        ''ALRM'', ''Virtual alarm clock'',
        ''BUS'', ''BUS error'',
        ''CHLD'', ''Child status has changed'',
        ''CONT'', ''Continue stopped process'',
        ''FPE'', ''Floating-point exception'',
        ''HUP'', ''Hangup detected on controlling terminal'',
        ''ILL'', ''Illegal instruction'',
        ''INT'', ''Interrupt from keyboard'',
        ''KILL'', ''Kill, unblockable'',
        ''PIPE'', ''Broken pipe'',
        ''POLL'', ''Pollable event occurred'',
        ''PROF'', ''Profiling alarm clock timer expired'',
        ''PWR'', ''Power failure restart'',
        ''QUIT'', ''Quit from keyboard'',
        ''SEGV'', ''Segmentation violation'',
        ''STKFLT'', ''Stack fault on coprocessor'',
        ''STOP'', ''Stop process, unblockable'',
        ''SYS'', ''Bad system call'',
        ''TERM'', ''Termination request'',
        ''TRAP'', ''Trace/breakpoint trap'',
        ''TSTP'', ''Stop typed at keyboard'',
        ''TTIN'', ''Background read from tty'',
        ''TTOU'', ''Background write to tty'',
        ''URG'', ''Urgent condition on socket'',
        ''USR1'', ''User-defined signal 1'',
        ''USR2'', ''User-defined signal 2'',
        ''VTALRM'', ''Virtual alarm clock'',
        ''WINCH'', ''Window size change'',
        ''XCPU'', ''CPU time limit exceeded'',
        ''XFSZ'', ''File size limit exceeded'']"

definition ActionProcessStates :: Action where
  "ActionProcessStates =
     ActionValuesDescribed
       [''D'', ''uninterruptible sleep (usually IO)'',
        ''I'', ''Idle kernel thread'',
        ''R'', ''running or runnable (on run queue)'',
        ''S'', ''interruptible sleep (waiting for an event to complete)'',
        ''T'', ''stopped by job control signal'',
        ''W'', ''paging (not valid since the 2.6.xx kernel)'',
        ''X'', ''dead (should never be seen)'',
        ''Z'', ''defunct (zombie) process, terminated but not reaped by its parent'',
        ''t'', ''stopped by debugger during the tracing'']"

subsection \<open>ActionProcessExecutables\<close>

fun processes_loop :: "Process list \<Rightarrow> string list \<Rightarrow> string list" where
  "processes_loop [] executables = executables"
| "processes_loop (process # processes) executables =
     processes_loop processes
       (executables @ [Executable process, Itoa (sint (Pid process))])"

definition ActionProcessExecutables :: "OS \<Rightarrow> string list \<Rightarrow> Action" where
  "ActionProcessExecutables os args =
     (case Processes os of
        Inl err \<Rightarrow> ActionMessage err
      | Inr processes \<Rightarrow> ActionValuesDescribed (processes_loop processes []))"

subsection \<open>ActionUserGroup\<close>

definition ActionUserGroup :: "OS \<Rightarrow> string \<Rightarrow> string list \<Rightarrow> Action" where
  "ActionUserGroup os =
     ActionMultiParts (CHR '':'')
       (\<lambda>args parts.
          case length parts of
            0 \<Rightarrow> Suffix '':'' (ActionUsers os args)
          | Suc 0 \<Rightarrow> ActionGroups os args
          | _ \<Rightarrow> ActionValues [])"

subsection \<open>ActionShells\<close>

definition ActionShells :: "OS \<Rightarrow> string list \<Rightarrow> Action" where
  "ActionShells os args =
     (case Output os ''chsh'' [''--list-shells''] of
        Inl err \<Rightarrow> ActionMessage err
      | Inr output \<Rightarrow> ActionValues (Split output (CHR ''\<newline>'')))"

subsection \<open>ActionPathExecutables\<close>

definition isExecAny :: "FileMode \<Rightarrow> bool" where
  \<comment> \<open>octal \<open>0111\<close> is 73\<close>
  "isExecAny mode \<longleftrightarrow> mode AND 73 \<noteq> 0"

fun files_loop :: "FileInfo list \<Rightarrow> (string \<rightharpoonup> bool) \<Rightarrow> (string \<rightharpoonup> bool)" where
  "files_loop [] executables = executables"
| "files_loop (f # files) executables =
     (if IsRegular (Mode f) \<and> isExecAny (Mode f)
      then files_loop files (executables(Name f \<mapsto> True))
      else files_loop files executables)"

fun folders_loop :: "OS \<Rightarrow> string list \<Rightarrow> (string \<rightharpoonup> bool) \<Rightarrow> (string \<rightharpoonup> bool)" where
  "folders_loop os [] executables = executables"
| "folders_loop os (folder # folders) executables =
     (case ReadDir os folder of
        Inr files \<Rightarrow> folders_loop os folders (files_loop files executables)
      | Inl err \<Rightarrow> folders_loop os folders executables)"

text \<open>
  Go visits the keys of a map in an order it does not specify: \<open>range_keys m ks\<close> says
  that \<open>ks\<close> is one such visit of the map \<open>m\<close>, each key once. The provider is therefore a
  relation between the state and the action returned.
\<close>

definition range_keys :: "(string \<rightharpoonup> bool) \<Rightarrow> string list \<Rightarrow> bool" where
  "range_keys m ks \<longleftrightarrow> distinct ks \<and> set ks = dom m"

inductive ActionPathExecutables :: "OS \<Rightarrow> string list \<Rightarrow> Action \<Rightarrow> bool" where
  "range_keys
     (folders_loop os (Split (Getenv os ''PATH'') (CHR '':'')) Map.empty) vals
   \<Longrightarrow> ActionPathExecutables os args (ActionValues vals)"

section \<open>Notions used to state the results\<close>

text \<open>
  What one iteration of the loop of \<open>ActionEnvironmentVariables\<close> stores for an entry
  that contains \<open>=\<close>: \<open>pair[0]\<close>, and \<open>pair[1]\<close> cut to 37 bytes and \<open>...\<close> when it is
  longer than 40.
\<close>

definition env_entry :: "string \<Rightarrow> string list" where
  "env_entry e =
     (let v = tl (dropWhile (\<lambda>c. c \<noteq> CHR ''='') e) in
      [takeWhile (\<lambda>c. c \<noteq> CHR ''='') e, if 40 < length v then take 37 v @ ''...'' else v])"

text \<open>The integer that a string of decimal digits, with an optional leading minus, denotes.\<close>

definition decimal_digits :: "string \<Rightarrow> nat" where
  "decimal_digits ds = foldl (\<lambda>a c. 10 * a + (of_char c - 48)) 0 ds"

definition decimal :: "string \<Rightarrow> int" where
  "decimal s =
     (case s of
        [] \<Rightarrow> 0
      | c # ds \<Rightarrow> if c = CHR ''-'' then - int (decimal_digits ds) else int (decimal_digits s))"


section \<open>Facts about the library model\<close>

declare digits10.simps [simp del]

lemma ModeType_eq: "ModeType = 0x8F280000"
  by (simp add: ModeType_def ModeDir_def ModeSymlink_def ModeDevice_def ModeNamedPipe_def
      ModeSocket_def ModeCharDevice_def ModeIrregular_def)

lemma pairs_length: "length (pairs xs) = length xs div 2"
  by (induction xs rule: pairs.induct) simp_all

lemma pairs_append2: "even (length xs) \<Longrightarrow> pairs (xs @ [v, d]) = pairs xs @ [(v, d)]"
  by (induction xs rule: pairs.induct) simp_all

lemma SplitN_2: "SplitN e sep 2 =
  (if sep \<in> set e then [takeWhile (\<lambda>c. c \<noteq> sep) e, tl (dropWhile (\<lambda>c. c \<noteq> sep) e)] else [e])"
  by (simp add: numeral_2_eq_2)


lemma digits10_nonempty: "digits10 n \<noteq> []"
  by (subst digits10.simps) simp

lemma digits10_chars: "c \<in> set (digits10 n) \<Longrightarrow> 48 \<le> (of_char c :: nat) \<and> (of_char c :: nat) \<le> 57"
proof (induction n rule: digits10.induct)
  case (1 n)
  show ?case
  proof (cases "n < 10")
    case True
    then show ?thesis using "1.prems" by (subst (asm) digits10.simps) auto
  next
    case False
    have m: "n mod 10 < 10" by simp
    from False "1.prems" have "c \<in> set (digits10 (n div 10)) \<or> c = char_of (48 + n mod 10)"
      by (subst (asm) digits10.simps) auto
    then show ?thesis
      using "1.IH" False m by auto
  qed
qed

lemma decimal_digits10: "decimal_digits (digits10 n) = n"
proof (induction n rule: digits10.induct)
  case (1 n)
  show ?case
  proof (cases "n < 10")
    case True
    then show ?thesis by (subst digits10.simps) (simp add: decimal_digits_def)
  next
    case False
    then have "decimal_digits (digits10 n) = 10 * decimal_digits (digits10 (n div 10)) + n mod 10"
      by (subst digits10.simps) (simp add: decimal_digits_def)
    then show ?thesis using "1.IH" False by simp
  qed
qed


lemma decimal_Itoa: "decimal (Itoa i) = i"
proof (cases "i < 0")
  case True
  then show ?thesis by (simp add: Itoa_def decimal_def decimal_digits10)
next
  case False
  obtain c ds where cd: "digits10 (nat i) = c # ds"
    using digits10_nonempty [of "nat i"] by (cases "digits10 (nat i)") auto
  then have "c \<in> set (digits10 (nat i))" by simp
  then have "48 \<le> (of_char c :: nat)" using digits10_chars by blast
  then have "c \<noteq> CHR ''-''" by auto
  then show ?thesis
    using False cd decimal_digits10 [of "nat i"] by (simp add: Itoa_def decimal_def)
qed



lemma Split_nonempty: "Split s sep \<noteq> []"
  by (induction s) (simp_all split: list.split)

lemma Split_length: "length (Split s sep) = Suc (length (filter (\<lambda>c. c = sep) s))"
proof (induction s)
  case Nil
  then show ?case by simp
next
  case (Cons c cs)
  then show ?case
    using Split_nonempty [of cs sep] by (cases "Split cs sep") auto
qed


lemma starts_with_Nil: "starts_with [] w \<longleftrightarrow> w = []"
  by (auto simp add: starts_with_def)

lemma trim_front_done:
  assumes "\<forall>w\<in>set ws. w \<noteq> []"
  shows "length s \<le> k \<Longrightarrow> find (starts_with (trim_front ws k s)) ws = None"
proof (induction k arbitrary: s)
  case 0
  then show ?case using assms by (auto simp add: find_None_iff starts_with_Nil)
next
  case (Suc k)
  show ?case
  proof (cases "find (starts_with s) ws")
    case None
    then show ?thesis by simp
  next
    case (Some w)
    then have "w \<in> set ws" by (auto simp add: find_Some_iff)
    then have "w \<noteq> []" using assms by simp
    then have "length (drop (length w) s) \<le> k" using Suc.prems by (cases w) auto
    then show ?thesis using Some Suc.IH by simp
  qed
qed

lemma TrimLeftSpace_done: "find (starts_with (TrimLeftSpace s)) space_runes = None"
  unfolding TrimLeftSpace_def by (rule trim_front_done) (simp_all add: space_runes_def)

section \<open>The static tables\<close>

text \<open>
  C8 (as the code has it): the kill-signal provider is a fixed enumeration of 31 pairs of
  a name and a description, not 30, and the process-state provider one of 9 pairs. Both
  are constants: no argument list, no state of the operating system and no failure enter
  them. The pairs are those below, byte for byte; \<open>KILL\<close> is described as
  "Kill, unblockable" and \<open>Z\<close> as a defunct (zombie) process.
\<close>

theorem static_tables:
  "ActionKillSignals = CandidateSet
     [(''ABRT'', ''Abnormal termination''),
      (''ALRM'', ''Virtual alarm clock''),
      (''BUS'', ''BUS error''),
      (''CHLD'', ''Child status has changed''),
      (''CONT'', ''Continue stopped process''),
      (''FPE'', ''Floating-point exception''),
      (''HUP'', ''Hangup detected on controlling terminal''),
      (''ILL'', ''Illegal instruction''),
      (''INT'', ''Interrupt from keyboard''),
      (''KILL'', ''Kill, unblockable''),
      (''PIPE'', ''Broken pipe''),
      (''POLL'', ''Pollable event occurred''),
      (''PROF'', ''Profiling alarm clock timer expired''),
      (''PWR'', ''Power failure restart''),
      (''QUIT'', ''Quit from keyboard''),
      (''SEGV'', ''Segmentation violation''),
      (''STKFLT'', ''Stack fault on coprocessor''),
      (''STOP'', ''Stop process, unblockable''),
      (''SYS'', ''Bad system call''),
      (''TERM'', ''Termination request''),
      (''TRAP'', ''Trace/breakpoint trap''),
      (''TSTP'', ''Stop typed at keyboard''),
      (''TTIN'', ''Background read from tty''),
      (''TTOU'', ''Background write to tty''),
      (''URG'', ''Urgent condition on socket''),
      (''USR1'', ''User-defined signal 1''),
      (''USR2'', ''User-defined signal 2''),
      (''VTALRM'', ''Virtual alarm clock''),
      (''WINCH'', ''Window size change''),
      (''XCPU'', ''CPU time limit exceeded''),
      (''XFSZ'', ''File size limit exceeded'')]
   \<and> ActionProcessStates = CandidateSet
     [(''D'', ''uninterruptible sleep (usually IO)''),
      (''I'', ''Idle kernel thread''),
      (''R'', ''running or runnable (on run queue)''),
      (''S'', ''interruptible sleep (waiting for an event to complete)''),
      (''T'', ''stopped by job control signal''),
      (''W'', ''paging (not valid since the 2.6.xx kernel)''),
      (''X'', ''dead (should never be seen)''),
      (''Z'', ''defunct (zombie) process, terminated but not reaped by its parent''),
      (''t'', ''stopped by debugger during the tracing'')]
   \<and> (\<exists>cs. ActionKillSignals = CandidateSet cs \<and> length cs = 31
          \<and> distinct (map fst cs))
   \<and> (\<exists>cs. ActionProcessStates = CandidateSet cs \<and> length cs = 9
          \<and> distinct (map fst cs))"
  by (simp add: ActionKillSignals_def ActionProcessStates_def ActionValuesDescribed_def)

text \<open>The table does not have 30 entries.\<close>

theorem kill_signals_not_30:
  "\<not> (\<exists>cs. ActionKillSignals = CandidateSet cs \<and> length cs = 30)"
  by (simp add: ActionKillSignals_def ActionValuesDescribed_def)

section \<open>The user and group databases\<close>

lemma users_loop_pairs:
  "even (length users) \<Longrightarrow>
   even (length (users_loop entries users)) \<and>
   pairs (users_loop entries users) =
     pairs users @ concat (map (\<lambda>line.
        let fields = Split line (CHR '':'') in
        if 2 < length fields \<and> TrimSpace (fields ! 0) \<noteq> [] then [(fields ! 0, fields ! 2)]
        else []) entries)"
proof (induction entries arbitrary: users)
  case Nil
  then show ?case by simp
next
  case (Cons entry entries)
  show ?case
  proof (cases "2 < length (Split entry (CHR '':'')) \<and> TrimSpace (Split entry (CHR '':'') ! 0) \<noteq> []")
    case True
    have ev: "even (length (users @ [Split entry (CHR '':'') ! 0, Split entry (CHR '':'') ! 2]))"
      using Cons.prems by simp
    show ?thesis
      using True Cons.IH [OF ev] Cons.prems by (simp add: Let_def pairs_append2)
  next
    case False
    then show ?thesis
      using Cons.IH [OF Cons.prems] by (auto simp add: Let_def)
  qed
qed

lemma groups_loop_users_loop: "groups_loop entries acc = users_loop entries acc"
  by (induction entries arbitrary: acc) (simp_all add: Let_def)

text \<open>
  C2: both database parsers split the content on newline and each line on \<open>:\<close>; a line
  yields exactly one candidate, field 0 as the name and field 2 as the description, if
  and only if it has more than 2 fields and its name is not empty after trimming the
  surrounding white space, and no candidate otherwise; the candidates stand in the order
  of the lines. The users provider reads \<open>/etc/passwd\<close>, the groups provider
  \<open>/etc/group\<close>, and they differ in nothing else: on equal contents they return the same.
\<close>

theorem database_parsers:
  "let parse = (\<lambda>content. concat (map (\<lambda>line.
        let fields = Split line (CHR '':'') in
        if 2 < length fields \<and> TrimSpace (fields ! 0) \<noteq> [] then [(fields ! 0, fields ! 2)]
        else []) (Split content (CHR ''\<newline>''))))
   in (ReadFile os ''/etc/passwd'' = Inr passwd \<longrightarrow> ActionUsers os args = CandidateSet (parse passwd))
    \<and> (ReadFile os ''/etc/group'' = Inr grp \<longrightarrow> ActionGroups os args' = CandidateSet (parse grp))
    \<and> (ReadFile os ''/etc/passwd'' = ReadFile os ''/etc/group'' \<longrightarrow>
          ActionUsers os args = ActionGroups os args')"
  using users_loop_pairs [of "[]"]
  by (simp add: Let_def ActionUsers_def ActionGroups_def ActionValuesDescribed_def
      groups_loop_users_loop split: sum.split)

theorem database_parsers_witness:
  "ActionUsers
     \<lparr>Environ = [],
      ReadFile = (\<lambda>path.
        if path = ''/etc/passwd''
        then Inr ''root:x:0:0:root:/root:/bin/bash\<newline>bin:x:1:1:bin:/bin:/sbin/nologin\<newline>''
        else if path = ''/etc/group'' then Inr '' :x:5\<newline>wheel:x:10:root\<newline>nobody:x''
        else Inl ''no such file or directory''),
      ReadDir = (\<lambda>path. Inl ''no such file or directory''),
      Processes = Inr [],
      Output = (\<lambda>name arg. Inl ''executable file not found'')\<rparr> []
     = CandidateSet [(''root'', ''0''), (''bin'', ''1'')]
   \<and> ActionGroups
     \<lparr>Environ = [],
      ReadFile = (\<lambda>path.
        if path = ''/etc/passwd''
        then Inr ''root:x:0:0:root:/root:/bin/bash\<newline>bin:x:1:1:bin:/bin:/sbin/nologin\<newline>''
        else if path = ''/etc/group'' then Inr '' :x:5\<newline>wheel:x:10:root\<newline>nobody:x''
        else Inl ''no such file or directory''),
      ReadDir = (\<lambda>path. Inl ''no such file or directory''),
      Processes = Inr [],
      Output = (\<lambda>name arg. Inl ''executable file not found'')\<rparr> []
     = CandidateSet [(''wheel'', ''10'')]
   \<and> ActionUsers
     \<lparr>Environ = [], ReadFile = (\<lambda>path. Inr ''daemon:x:1:1''),
      ReadDir = (\<lambda>path. Inl ''no such file or directory''),
      Processes = Inr [],
      Output = (\<lambda>name arg. Inl ''executable file not found'')\<rparr> []
     = ActionGroups
     \<lparr>Environ = [], ReadFile = (\<lambda>path. Inr ''daemon:x:1:1''),
      ReadDir = (\<lambda>path. Inl ''no such file or directory''),
      Processes = Inr [],
      Output = (\<lambda>name arg. Inl ''executable file not found'')\<rparr> []"
proof -
  let ?passwd = "''root:x:0:0:root:/root:/bin/bash\<newline>bin:x:1:1:bin:/bin:/sbin/nologin\<newline>''"
  let ?grp = "'' :x:5\<newline>wheel:x:10:root\<newline>nobody:x''"
  let ?os = "\<lparr>Environ = [],
      ReadFile = (\<lambda>path.
        if path = ''/etc/passwd'' then Inr ?passwd
        else if path = ''/etc/group'' then Inr ?grp
        else Inl ''no such file or directory''),
      ReadDir = (\<lambda>path. Inl ''no such file or directory''),
      Processes = Inr [],
      Output = (\<lambda>name arg. Inl ''executable file not found'')\<rparr>"
  let ?os' = "\<lparr>Environ = [], ReadFile = (\<lambda>path. Inr ''daemon:x:1:1''),
      ReadDir = (\<lambda>path. Inl ''no such file or directory''),
      Processes = Inr [],
      Output = (\<lambda>name arg. Inl ''executable file not found'')\<rparr>"
  let ?parse = "\<lambda>content. concat (map (\<lambda>line.
        let fields = Split line (CHR '':'') in
        if 2 < length fields \<and> TrimSpace (fields ! 0) \<noteq> [] then [(fields ! 0, fields ! 2)]
        else []) (Split content (CHR ''\<newline>'')))"
  have p: "?parse ?passwd = [(''root'', ''0''), (''bin'', ''1'')]"
    by code_simp
  have g: "?parse ?grp = [(''wheel'', ''10'')]"
    by code_simp
  have "ActionUsers ?os [] = CandidateSet (?parse ?passwd)"
    and "ActionGroups ?os [] = CandidateSet (?parse ?grp)"
    using database_parsers [of ?os ?passwd "[]" ?grp "[]"] by (simp_all add: Let_def)
  moreover have "ActionUsers ?os' [] = ActionGroups ?os' []"
    using database_parsers [of ?os' "[]" "[]" "[]" "[]"] by (simp add: Let_def)
  ultimately show ?thesis
    using p g by simp
qed

text \<open>
  C3: when the database file cannot be read, whatever the error, the users and the groups
  provider return the empty candidate set; and neither ever returns a message.
\<close>

theorem unreadable_database:
  "(ReadFile os ''/etc/passwd'' = Inl err \<longrightarrow> ActionUsers os args = CandidateSet [])
   \<and> (ReadFile os ''/etc/group'' = Inl err' \<longrightarrow> ActionGroups os args = CandidateSet [])
   \<and> ActionUsers os args \<noteq> Message m \<and> ActionGroups os args \<noteq> Message m"
  by (simp add: ActionUsers_def ActionGroups_def ActionValuesDescribed_def)

theorem unreadable_database_witness:
  "ActionUsers
     \<lparr>Environ = [], ReadFile = (\<lambda>path. Inl ''permission denied''),
      ReadDir = (\<lambda>path. Inl ''no such file or directory''),
      Processes = Inr [],
      Output = (\<lambda>name arg. Inl ''executable file not found'')\<rparr> [] = CandidateSet []
   \<and> ActionGroups
     \<lparr>Environ = [], ReadFile = (\<lambda>path. Inl ''permission denied''),
      ReadDir = (\<lambda>path. Inl ''no such file or directory''),
      Processes = Inr [],
      Output = (\<lambda>name arg. Inl ''executable file not found'')\<rparr> [] = CandidateSet []"
  using unreadable_database
    [of "\<lparr>Environ = [], ReadFile = (\<lambda>path. Inl ''permission denied''),
      ReadDir = (\<lambda>path. Inl ''no such file or directory''),
      Processes = Inr [],
      Output = (\<lambda>name arg. Inl ''executable file not found'')\<rparr>"
      "''permission denied''" "[]" "''permission denied''"]
  by simp

section \<open>Environment variables\<close>

lemma take_update2:
  "Suc (2 * i) < length vars \<Longrightarrow> take (2 * Suc i) (vars[2 * i := a, Suc (2 * i) := b]) = take (2 * i) vars @ [a, b]"
  by (simp add: list_eq_iff_nth_eq nth_append nth_list_update less_Suc_eq)

lemma env_loop_eq:
  "length vars = 2 * (index + length es) \<Longrightarrow>
   env_loop index es vars =
     (if \<forall>e\<in>set es. CHR ''='' \<in> set e
      then Inr (take (2 * index) vars @ concat (map env_entry es))
      else Inl (IndexOutOfRange 1 1))"
proof (induction es arbitrary: index vars)
  case Nil
  then show ?case by simp
next
  case (Cons e es)
  show ?case
  proof (cases "CHR ''='' \<in> set e")
    case False
    then show ?thesis
      using Cons.prems by (simp add: SplitN_2 at_index_def store_index_def)
  next
    case True
    let ?a = "takeWhile (\<lambda>c. c \<noteq> CHR ''='') e"
    let ?v = "tl (dropWhile (\<lambda>c. c \<noteq> CHR ''='') e)"
    let ?b = "if 40 < length ?v then take 37 ?v @ ''...'' else ?v"
    let ?vars = "vars[2 * index := ?a, Suc (2 * index) := ?b]"
    have len: "length ?vars = 2 * (Suc index + length es)"
      using Cons.prems by simp
    have step: "env_loop index (e # es) vars = env_loop (Suc index) es ?vars"
      using True Cons.prems
      by (simp add: SplitN_2 at_index_def store_index_def mult.commute)
    have tk: "take (2 * Suc index) ?vars = take (2 * index) vars @ env_entry e"
      using Cons.prems take_update2 [of index vars ?a ?b] by (simp add: env_entry_def Let_def)
    show ?thesis
      unfolding step Cons.IH [OF len] tk using True by simp
  qed
qed

lemma pairs_env_entries:
  "pairs (concat (map env_entry es)) = map (\<lambda>e. (env_entry e ! 0, env_entry e ! 1)) es"
  by (induction es) (simp_all add: env_entry_def Let_def)

lemma ActionEnvironmentVariables_eq:
  "ActionEnvironmentVariables os args =
     (if \<forall>e\<in>set (Environ os). CHR ''='' \<in> set e
      then Inr (CandidateSet (map (\<lambda>e. (env_entry e ! 0, env_entry e ! 1)) (Environ os)))
      else Inl (IndexOutOfRange 1 1))"
  by (simp add: ActionEnvironmentVariables_def Let_def env_loop_eq mult.commute
      ActionValuesDescribed_def pairs_env_entries)




text \<open>
  C10: a provider should never end in a fault. The environment-variable provider does,
  on an environment with an entry that contains no \<open>=\<close>: \<open>SplitN\<close> returns a slice
  of length 1 and the read of \<open>pair[1]\<close> panics with an index out of range.
\<close>

theorem environment_variables_panic:
  "ActionEnvironmentVariables
          \<lparr>Environ = [''FOO''],
           ReadFile = (\<lambda>path. Inl ''no such file or directory''),
           ReadDir = (\<lambda>path. Inl ''no such file or directory''),
           Processes = Inr [],
           Output = (\<lambda>name arg. Inl ''executable file not found'')\<rparr> []
        = Inl (IndexOutOfRange 1 1)"
  by (simp add: ActionEnvironmentVariables_eq)

section \<open>Process executables\<close>

lemma processes_loop_pairs:
  "even (length executables) \<Longrightarrow>
   even (length (processes_loop processes executables)) \<and>
   pairs (processes_loop processes executables) =
     pairs executables @ map (\<lambda>p. (Executable p, Itoa (sint (Pid p)))) processes"
  by (induction processes arbitrary: executables) (simp_all add: pairs_append2)

text \<open>
  C6: when the query of the process table fails, the provider returns a message with the
  text of the error; when it succeeds, it returns one candidate for each process, in the
  table's order: the name of the executable, described by the process id as a decimal
  string.
\<close>

theorem process_executables:
  "(Processes os = Inl err \<longrightarrow> ActionProcessExecutables os args = Message err)
   \<and> (Processes os = Inr processes \<longrightarrow>
        ActionProcessExecutables os args =
          CandidateSet (map (\<lambda>p. (Executable p, Itoa (sint (Pid p)))) processes)
        \<and> (\<forall>p\<in>set processes. decimal (Itoa (sint (Pid p))) = sint (Pid p)))"
  using processes_loop_pairs [of "[]"]
  by (simp add: ActionProcessExecutables_def ActionMessage_def ActionValuesDescribed_def
      decimal_Itoa)

theorem process_executables_witness:
  "ActionProcessExecutables
     \<lparr>Environ = [],
      ReadFile = (\<lambda>path. Inl ''no such file or directory''),
      ReadDir = (\<lambda>path. Inl ''no such file or directory''),
      Processes = Inl ''open /proc: permission denied'',
      Output = (\<lambda>name arg. Inl ''executable file not found'')\<rparr> []
     = Message ''open /proc: permission denied''
   \<and> ActionProcessExecutables
     \<lparr>Environ = [],
      ReadFile = (\<lambda>path. Inl ''no such file or directory''),
      ReadDir = (\<lambda>path. Inl ''no such file or directory''),
      Processes = Inr [\<lparr>Executable = ''NetworkManager'', Pid = 439\<rparr>,
                       \<lparr>Executable = ''cupsd'', Pid = 454\<rparr>],
      Output = (\<lambda>name arg. Inl ''executable file not found'')\<rparr> []
     = CandidateSet [(''NetworkManager'', ''439''), (''cupsd'', ''454'')]"
proof -
  let ?os1 = "\<lparr>Environ = [],
      ReadFile = (\<lambda>path. Inl ''no such file or directory''),
      ReadDir = (\<lambda>path. Inl ''no such file or directory''),
      Processes = Inl ''open /proc: permission denied'',
      Output = (\<lambda>name arg. Inl ''executable file not found'')\<rparr>"
  let ?ps = "[\<lparr>Executable = ''NetworkManager'', Pid = 439\<rparr>,
              \<lparr>Executable = ''cupsd'', Pid = 454\<rparr>]"
  let ?os2 = "\<lparr>Environ = [],
      ReadFile = (\<lambda>path. Inl ''no such file or directory''),
      ReadDir = (\<lambda>path. Inl ''no such file or directory''),
      Processes = Inr ?ps,
      Output = (\<lambda>name arg. Inl ''executable file not found'')\<rparr>"
  have d: "Itoa (sint (439 :: 64 word)) = ''439''" "Itoa (sint (454 :: 64 word)) = ''454''"
    "Itoa 439 = ''439''" "Itoa 454 = ''454''"
    by code_simp+
  have "ActionProcessExecutables ?os1 [] = Message ''open /proc: permission denied''"
    using process_executables [where os = ?os1 and args = "[]"
        and err = "''open /proc: permission denied''"]
    by simp
  moreover have "ActionProcessExecutables ?os2 [] =
      CandidateSet [(''NetworkManager'', ''439''), (''cupsd'', ''454'')]"
    using process_executables [where os = ?os2 and args = "[]" and processes = ?ps] d
    by simp
  ultimately show ?thesis by (rule conjI)
qed

section \<open>The compound provider for user and group\<close>

lemma ActionUsers_CandidateSet: "\<exists>cs. ActionUsers os args = CandidateSet cs"
  by (simp add: ActionUsers_def ActionValuesDescribed_def)

lemma parts_length:
  "length (butlast (Split token sep)) = length (filter (\<lambda>c. c = sep) token)"
  by (simp add: Split_length)

lemma ActionUserGroup_cases:
  "ActionUserGroup os token args =
     (case length (filter (\<lambda>c. c = CHR '':'') token) of
        0 \<Rightarrow> Suffix '':'' (ActionUsers os args)
      | Suc 0 \<Rightarrow> ActionGroups os args
      | Suc (Suc k) \<Rightarrow> CandidateSet [])"
  unfolding ActionUserGroup_def ActionMultiParts_def parts_length
  by (simp add: ActionValues_def split: nat.split)

text \<open>
  C1: the compound provider for \<open>user:group\<close>, by the number of colons in the token
  typed so far, whatever the argument list. With no colon it returns the candidates of
  the users provider, each value with \<open>:\<close> appended; with exactly one colon those of
  the groups provider, unchanged; with two or more colons the empty candidate set.
\<close>

theorem user_group:
  "let colons = length (filter (\<lambda>c. c = CHR '':'') token) in
   (colons = 0 \<longrightarrow>
      (\<exists>cs. ActionUsers os args = CandidateSet cs
         \<and> ActionUserGroup os token args = CandidateSet (map (\<lambda>(v, d). (v @ '':'', d)) cs)))
   \<and> (colons = 1 \<longrightarrow> ActionUserGroup os token args = ActionGroups os args)
   \<and> (2 \<le> colons \<longrightarrow> ActionUserGroup os token args = CandidateSet [])"
proof -
  obtain cs where cs: "ActionUsers os args = CandidateSet cs"
    using ActionUsers_CandidateSet by blast
  show ?thesis
  proof (cases "length (filter (\<lambda>c. c = CHR '':'') token)")
    case 0
    then show ?thesis
      unfolding Let_def ActionUserGroup_cases cs by simp
  next
    case (Suc m)
    then show ?thesis
      unfolding Let_def ActionUserGroup_cases by (cases m) simp_all
  qed
qed

theorem user_group_witness:
  "ActionUserGroup
     \<lparr>Environ = [],
      ReadFile = (\<lambda>path.
        if path = ''/etc/passwd'' then Inr ''root:x:0:0\<newline>bin:x:1:1\<newline>''
        else if path = ''/etc/group'' then Inr ''wheel:x:10:root\<newline>''
        else Inl ''no such file or directory''),
      ReadDir = (\<lambda>path. Inl ''no such file or directory''),
      Processes = Inr [],
      Output = (\<lambda>name arg. Inl ''executable file not found'')\<rparr> ''ro'' []
     = CandidateSet [(''root:'', ''0''), (''bin:'', ''1'')]
   \<and> ActionUserGroup
     \<lparr>Environ = [],
      ReadFile = (\<lambda>path.
        if path = ''/etc/passwd'' then Inr ''root:x:0:0\<newline>bin:x:1:1\<newline>''
        else if path = ''/etc/group'' then Inr ''wheel:x:10:root\<newline>''
        else Inl ''no such file or directory''),
      ReadDir = (\<lambda>path. Inl ''no such file or directory''),
      Processes = Inr [],
      Output = (\<lambda>name arg. Inl ''executable file not found'')\<rparr> ''root:wh'' []
     = CandidateSet [(''wheel'', ''10'')]
   \<and> ActionUserGroup
     \<lparr>Environ = [],
      ReadFile = (\<lambda>path.
        if path = ''/etc/passwd'' then Inr ''root:x:0:0\<newline>bin:x:1:1\<newline>''
        else if path = ''/etc/group'' then Inr ''wheel:x:10:root\<newline>''
        else Inl ''no such file or directory''),
      ReadDir = (\<lambda>path. Inl ''no such file or directory''),
      Processes = Inr [],
      Output = (\<lambda>name arg. Inl ''executable file not found'')\<rparr> ''root:wheel:'' []
     = CandidateSet []"
proof -
  let ?os = "\<lparr>Environ = [],
      ReadFile = (\<lambda>path.
        if path = ''/etc/passwd'' then Inr ''root:x:0:0\<newline>bin:x:1:1\<newline>''
        else if path = ''/etc/group'' then Inr ''wheel:x:10:root\<newline>''
        else Inl ''no such file or directory''),
      ReadDir = (\<lambda>path. Inl ''no such file or directory''),
      Processes = Inr [],
      Output = (\<lambda>name arg. Inl ''executable file not found'')\<rparr>"
  have u: "ActionUsers ?os [] = CandidateSet [(''root'', ''0''), (''bin'', ''1'')]"
    by code_simp
  have g: "ActionGroups ?os [] = CandidateSet [(''wheel'', ''10'')]"
    by code_simp
  have "ActionUserGroup ?os ''ro'' [] = CandidateSet [(''root:'', ''0''), (''bin:'', ''1'')]"
    using user_group [where os = ?os and token = "''ro''" and args = "[]"] u by simp
  moreover have "ActionUserGroup ?os ''root:wh'' [] = CandidateSet [(''wheel'', ''10'')]"
    using user_group [where os = ?os and token = "''root:wh''" and args = "[]"] g by simp
  moreover have "ActionUserGroup ?os ''root:wheel:'' [] = CandidateSet []"
    using user_group [where os = ?os and token = "''root:wheel:''" and args = "[]"] by simp
  ultimately show ?thesis by simp
qed

section \<open>Shells\<close>

text \<open>
  C7 (as the code has it): when the command is not found or exits nonzero, the shells
  provider returns a message with the text of the error. When it exits zero, the output
  is split on newline and every line becomes a candidate with a value and no
  description, the empty lines as well: no line is left out.
\<close>

theorem shells_result:
  "(Output os ''chsh'' [''--list-shells''] = Inl err \<longrightarrow> ActionShells os args = Message err)
   \<and> (Output os ''chsh'' [''--list-shells''] = Inr output \<longrightarrow>
        ActionShells os args = CandidateSet (map (\<lambda>line. (line, [])) (Split output (CHR ''\<newline>''))))"
  by (simp add: ActionShells_def ActionMessage_def ActionValues_def)

text \<open>
  For the output \<open>/bin/bash\\n/bin/zsh\\n\<close> the provider returns three candidates, the
  last one with the empty value that follows the final newline, not two.
\<close>

theorem shells_trailing_newline:
  "ActionShells
     \<lparr>Environ = [],
      ReadFile = (\<lambda>path. Inl ''no such file or directory''),
      ReadDir = (\<lambda>path. Inl ''no such file or directory''),
      Processes = Inr [],
      Output = (\<lambda>name arg. Inr ''/bin/bash\<newline>/bin/zsh\<newline>'')\<rparr> []
   = CandidateSet [(''/bin/bash'', []), (''/bin/zsh'', []), ([], [])]"
  by (simp add: ActionShells_def ActionValues_def)

theorem shells_result_witness:
  "ActionShells
     \<lparr>Environ = [],
      ReadFile = (\<lambda>path. Inl ''no such file or directory''),
      ReadDir = (\<lambda>path. Inl ''no such file or directory''),
      Processes = Inr [],
      Output = (\<lambda>name arg. Inl ''exit status 1'')\<rparr> []
   = Message ''exit status 1''
   \<and> ActionShells
     \<lparr>Environ = [],
      ReadFile = (\<lambda>path. Inl ''no such file or directory''),
      ReadDir = (\<lambda>path. Inl ''no such file or directory''),
      Processes = Inr [],
      Output = (\<lambda>name arg. Inr ''/bin/sh\<newline>\<newline>/bin/elvish'')\<rparr> []
   = CandidateSet [(''/bin/sh'', []), ([], []), (''/bin/elvish'', [])]"
proof -
  let ?os1 = "\<lparr>Environ = [],
      ReadFile = (\<lambda>path. Inl ''no such file or directory''),
      ReadDir = (\<lambda>path. Inl ''no such file or directory''),
      Processes = Inr [],
      Output = (\<lambda>name arg. Inl ''exit status 1'')\<rparr>"
  let ?os2 = "\<lparr>Environ = [],
      ReadFile = (\<lambda>path. Inl ''no such file or directory''),
      ReadDir = (\<lambda>path. Inl ''no such file or directory''),
      Processes = Inr [],
      Output = (\<lambda>name arg. Inr ''/bin/sh\<newline>\<newline>/bin/elvish'')\<rparr>"
  have "ActionShells ?os1 [] = Message ''exit status 1''"
    using shells_result [of ?os1 "''exit status 1''" "[]" "[]"] by simp
  moreover have "ActionShells ?os2 [] =
      CandidateSet (map (\<lambda>line. (line, [])) (Split ''/bin/sh\<newline>\<newline>/bin/elvish'' (CHR ''\<newline>'')))"
    using shells_result [of ?os2 "[]" "[]" "''/bin/sh\<newline>\<newline>/bin/elvish''"] by simp
  ultimately show ?thesis by simp
qed

section \<open>Executables on the PATH\<close>

lemma files_loop_dom:
  "dom (files_loop files executables) =
     dom executables \<union> {Name f |f. f \<in> set files \<and> IsRegular (Mode f) \<and> isExecAny (Mode f)}"
  by (induction files arbitrary: executables) auto

lemma folder_names_Cons:
  "{Name f |folder files f. folder \<in> set (d # ds) \<and> ReadDir os folder = Inr files
        \<and> f \<in> set files \<and> IsRegular (Mode f) \<and> isExecAny (Mode f)} =
   {Name f |files f. ReadDir os d = Inr files
        \<and> f \<in> set files \<and> IsRegular (Mode f) \<and> isExecAny (Mode f)} \<union>
   {Name f |folder files f. folder \<in> set ds \<and> ReadDir os folder = Inr files
        \<and> f \<in> set files \<and> IsRegular (Mode f) \<and> isExecAny (Mode f)}"
  by (rule set_eqI) (simp, blast)

lemma folders_loop_dom:
  "dom (folders_loop os folders executables) =
     dom executables \<union>
     {Name f |folder files f. folder \<in> set folders \<and> ReadDir os folder = Inr files
        \<and> f \<in> set files \<and> IsRegular (Mode f) \<and> isExecAny (Mode f)}"
proof (induction folders arbitrary: executables)
  case Nil
  then show ?case by simp
next
  case (Cons folder folders)
  show ?case
  proof (cases "ReadDir os folder")
    case (Inl err)
    then show ?thesis
      unfolding folder_names_Cons using Cons.IH [of executables] by simp
  next
    case (Inr files)
    then show ?thesis
      unfolding folder_names_Cons using Cons.IH [of "files_loop files executables"]
      by (simp add: files_loop_dom Un_assoc)
  qed
qed

lemma files_loop_finite: "finite (dom executables) \<Longrightarrow> finite (dom (files_loop files executables))"
  by (induction files arbitrary: executables) simp_all
lemma folders_loop_finite:
  "finite (dom executables) \<Longrightarrow> finite (dom (folders_loop os folders executables))"
proof (induction folders arbitrary: executables)
  case Nil
  then show ?case by simp
next
  case (Cons folder folders)
  show ?case
  proof (cases "ReadDir os folder")
    case (Inl err)
    then show ?thesis using Cons.IH [OF Cons.prems] by simp
  next
    case (Inr files)
    then show ?thesis using Cons.IH [OF files_loop_finite [OF Cons.prems]] by simp
  qed
qed

lemma path_executables_exists: "\<exists>action. ActionPathExecutables os args action"
proof -
  let ?m = "folders_loop os (Split (Getenv os ''PATH'') (CHR '':'')) Map.empty"
  have fin: "finite (dom ?m)"
    by (rule folders_loop_finite) simp
  have "\<exists>vals. set vals = dom ?m \<and> distinct vals"
    by (rule finite_distinct_list) (rule fin)
  then obtain vals where v: "set vals = dom ?m \<and> distinct vals" ..
  have "range_keys ?m vals"
    unfolding range_keys_def by (rule conjI [OF conjunct2 [OF v] conjunct1 [OF v]])
  then have "ActionPathExecutables os args (ActionValues vals)"
    by (rule ActionPathExecutables.intros)
  then show ?thesis by (rule exI)
qed
lemma path_executables_names:
  assumes "ActionPathExecutables os args action"
  shows "\<exists>names. action = CandidateSet (map (\<lambda>name. (name, [])) names)
           \<and> distinct names
           \<and> set names =
               {Name f |folder files f.
                  folder \<in> set (Split (Getenv os ''PATH'') (CHR '':''))
                  \<and> ReadDir os folder = Inr files
                  \<and> f \<in> set files \<and> IsRegular (Mode f) \<and> Mode f AND 73 \<noteq> 0}"
  using assms
proof cases
  case (1 vals)
  let ?m = "folders_loop os (Split (Getenv os ''PATH'') (CHR '':'')) Map.empty"
  have r: "distinct vals \<and> set vals = dom ?m"
    using 1(2) unfolding range_keys_def .
  have a: "action = CandidateSet (map (\<lambda>name. (name, [])) vals)"
    using 1(1) unfolding ActionValues_def .
  have "dom ?m = {Name f |folder files f.
                  folder \<in> set (Split (Getenv os ''PATH'') (CHR '':''))
                  \<and> ReadDir os folder = Inr files
                  \<and> f \<in> set files \<and> IsRegular (Mode f) \<and> Mode f AND 73 \<noteq> 0}"
    unfolding folders_loop_dom isExecAny_def by simp
  with r have s: "set vals = {Name f |folder files f.
                  folder \<in> set (Split (Getenv os ''PATH'') (CHR '':''))
                  \<and> ReadDir os folder = Inr files
                  \<and> f \<in> set files \<and> IsRegular (Mode f) \<and> Mode f AND 73 \<noteq> 0}"
    by simp
  show ?thesis
    by (rule exI [of _ vals]) (rule conjI [OF a conjI [OF conjunct1 [OF r] s]])
qed
text \<open>
  C5: whatever \<open>PATH\<close> and the directories hold, the provider returns an action, and
  every action it can return is a candidate set without descriptions whose values are
  exactly the names of the regular files with an execute bit (\<open>mode AND 0111\<close>, that is
  73, not zero) in the directories of \<open>PATH\<close> that can be read, each name once,
  however many of the directories have it; directories that cannot be read contribute
  nothing. The order of the values is the order in which Go visits the map, and is not
  determined.
\<close>

theorem path_executables:
  "(\<exists>action. ActionPathExecutables os args action)
   \<and> (\<forall>action. ActionPathExecutables os args action \<longrightarrow>
        (\<exists>names. action = CandidateSet (map (\<lambda>name. (name, [])) names)
           \<and> distinct names
           \<and> set names =
               {Name f |folder files f.
                  folder \<in> set (Split (Getenv os ''PATH'') (CHR '':''))
                  \<and> ReadDir os folder = Inr files
                  \<and> f \<in> set files \<and> IsRegular (Mode f) \<and> Mode f AND 73 \<noteq> 0}))"
proof (intro conjI allI impI)
  show "\<exists>action. ActionPathExecutables os args action"
    by (rule path_executables_exists)
next
  fix action
  assume "ActionPathExecutables os args action"
  then show "\<exists>names. action = CandidateSet (map (\<lambda>name. (name, [])) names)
           \<and> distinct names
           \<and> set names =
               {Name f |folder files f.
                  folder \<in> set (Split (Getenv os ''PATH'') (CHR '':''))
                  \<and> ReadDir os folder = Inr files
                  \<and> f \<in> set files \<and> IsRegular (Mode f) \<and> Mode f AND 73 \<noteq> 0}"
    by (rule path_executables_names)
qed

theorem path_executables_witness:
  "ActionPathExecutables
     \<lparr>Environ = [''HOME=/root'', ''PATH=/bin:/usr/bin:/bin:/missing''],
      ReadFile = (\<lambda>path. Inl ''no such file or directory''),
      ReadDir = (\<lambda>path.
        if path = ''/bin''
        then Inr [\<lparr>Name = ''sh'', Mode = 493\<rparr>, \<lparr>Name = ''README'', Mode = 420\<rparr>,
                  \<lparr>Name = ''tools'', Mode = 0x800001ED\<rparr>]
        else if path = ''/usr/bin''
        then Inr [\<lparr>Name = ''sh'', Mode = 493\<rparr>, \<lparr>Name = ''vim'', Mode = 448\<rparr>]
        else Inl ''no such file or directory''),
      Processes = Inr [],
      Output = (\<lambda>name arg. Inl ''executable file not found'')\<rparr> []
     (CandidateSet [(''vim'', []), (''sh'', [])])
   \<and> \<not> ActionPathExecutables
     \<lparr>Environ = [''HOME=/root'', ''PATH=/bin:/usr/bin:/bin:/missing''],
      ReadFile = (\<lambda>path. Inl ''no such file or directory''),
      ReadDir = (\<lambda>path.
        if path = ''/bin''
        then Inr [\<lparr>Name = ''sh'', Mode = 493\<rparr>, \<lparr>Name = ''README'', Mode = 420\<rparr>,
                  \<lparr>Name = ''tools'', Mode = 0x800001ED\<rparr>]
        else if path = ''/usr/bin''
        then Inr [\<lparr>Name = ''sh'', Mode = 493\<rparr>, \<lparr>Name = ''vim'', Mode = 448\<rparr>]
        else Inl ''no such file or directory''),
      Processes = Inr [],
      Output = (\<lambda>name arg. Inl ''executable file not found'')\<rparr> []
     (CandidateSet [(''sh'', []), (''vim'', []), (''sh'', [])])"
proof -
  let ?os = "\<lparr>Environ = [''HOME=/root'', ''PATH=/bin:/usr/bin:/bin:/missing''],
      ReadFile = (\<lambda>path. Inl ''no such file or directory''),
      ReadDir = (\<lambda>path.
        if path = ''/bin''
        then Inr [\<lparr>Name = ''sh'', Mode = 493\<rparr>, \<lparr>Name = ''README'', Mode = 420\<rparr>,
                  \<lparr>Name = ''tools'', Mode = 0x800001ED\<rparr>]
        else if path = ''/usr/bin''
        then Inr [\<lparr>Name = ''sh'', Mode = 493\<rparr>, \<lparr>Name = ''vim'', Mode = 448\<rparr>]
        else Inl ''no such file or directory''),
      Processes = Inr [],
      Output = (\<lambda>name arg. Inl ''executable file not found'')\<rparr>"
  have path: "Split (Getenv ?os ''PATH'') (CHR '':'') = [''/bin'', ''/usr/bin'', ''/bin'', ''/missing'']"
    by (simp add: Getenv_def)
  have "range_keys (folders_loop ?os (Split (Getenv ?os ''PATH'') (CHR '':'')) Map.empty)
          [''vim'', ''sh'']"
    unfolding path
    by (simp add: range_keys_def IsRegular_def ModeType_eq isExecAny_def insert_commute)
  then have "ActionPathExecutables ?os [] (ActionValues [''vim'', ''sh''])"
    by (rule ActionPathExecutables.intros)
  then have 1: "ActionPathExecutables ?os [] (CandidateSet [(''vim'', []), (''sh'', [])])"
    by (simp add: ActionValues_def)
  have 2: "\<not> ActionPathExecutables ?os [] (CandidateSet [(''sh'', []), (''vim'', []), (''sh'', [])])"
  proof
    assume "ActionPathExecutables ?os [] (CandidateSet [(''sh'', []), (''vim'', []), (''sh'', [])])"
    with path_executables [of ?os "[]"] obtain names
      where n: "CandidateSet [(''sh'', []), (''vim'', []), (''sh'', [])]
                  = CandidateSet (map (\<lambda>name. (name, [])) names)"
        and d: "distinct names"
      by meson
    from n have "names = [''sh'', ''vim'', ''sh'']"
      by (auto simp add: map_eq_Cons_conv Cons_eq_map_conv)
    with d show False by simp
  qed
  from 1 2 show ?thesis by (rule conjI)
qed
section \<open>The length of descriptions\<close>





end
